theory Spec2Isabelle
  imports Main "HOL-Library.Sublist" "HOL-Library.Char_ord" "HOL-Library.List_Lexorder"
begin

section \<open>Values of the interface module\<close>

text \<open>
  The module \<^verbatim>\<open>nr.interface\<close> inspects Python objects by their class
  (\<^verbatim>\<open>isinstance\<close>), by marks that the decorators \<^verbatim>\<open>default\<close>,
  \<^verbatim>\<open>final\<close> and \<^verbatim>\<open>override\<close> leave on functions, and by object
  identity. A model value carries exactly that: a function is its allocation tag and its
  three marks; two model values stand for the same Python object when they are equal.
\<close>

datatype func = Func (fn_id: nat) (is_default: bool) (is_final: bool) (is_override: bool)

text \<open>
  A slot of a \<^verbatim>\<open>Property\<close> holds \<^verbatim>\<open>None\<close> (the implementer has to supply
  it), \<^verbatim>\<open>NotImplemented\<close> (the interface says nothing about it) or a default
  implementation.
\<close>

datatype slot = SlotNone | SlotNotImplemented | SlotImpl func

datatype propspec = Propspec (getter_impl: slot) (setter_impl: slot) (deleter_impl: slot)
  (getter_final: bool) (setter_final: bool) (deleter_final: bool)

datatype kind =
    is_Method: Method (impl: "func option") (final: bool)
  | is_Attribute: Attribute (atype: "string option")
  | is_Property: Property (spec: propspec)

text \<open>
  \<^verbatim>\<open>_Member\<close>: the owning interface (its tag) and the name, with the fields of the
  subclass in \<open>kind\<close>. \<open>mid\<close> is the allocation tag of the member object. In \<open>name\<close>
  the empty string also stands for \<^verbatim>\<open>None\<close>, the name of a member that is not bound
  yet: \<^verbatim>\<open>is_bound\<close> treats the two alike, and neither names a class attribute.
\<close>

datatype member = Member (mid: nat) (interface: "nat option") (name: string) (kind: kind)


text \<open>
  The values a class body or a class can hold: a plain function, a \<^verbatim>\<open>property\<close>
  object with its three accessors, a member object, \<^verbatim>\<open>None\<close>, or anything else,
  of which only the name of its type is ever read.
\<close>

datatype pyval =
    is_Function: Function (the_func: func)
  | is_PyProperty: PyProperty (fget: "func option") (fset: "func option") (fdel: "func option")
  | is_MemberObj: MemberObj (the_member: member)
  | PyNone
  | Other string

fun type_name :: "pyval \<Rightarrow> string" where
  "type_name (Function f) = ''function''"
| "type_name (PyProperty g s d) = ''property''"
| "type_name (MemberObj m) =
     (case kind m of Method i f \<Rightarrow> ''Method'' | Attribute t \<Rightarrow> ''Attribute''
      | Property p \<Rightarrow> ''Property'')"
| "type_name PyNone = ''NoneType''"
| "type_name (Other t) = t"

text \<open>A dictionary in insertion order: a class body, or the attributes of a class.\<close>

type_synonym pydict = "(string \<times> pyval) list"

text \<open>\<^verbatim>\<open>d[k] = v\<close>: the entry is replaced where it stands, or added at the end.\<close>

fun setitem :: "string \<Rightarrow> pyval \<Rightarrow> pydict \<Rightarrow> pydict" where
  "setitem k v [] = [(k, v)]"
| "setitem k v (e # d) = (if fst e = k then (k, v) # d else e # setitem k v d)"

text \<open>
  The exceptions the module raises, with what they carry. \<open>'c\<close> is the type of the
  interface classes; \<^verbatim>\<open>ImplementationError\<close> carries the new class by its name,
  the interface and the list of errors.
\<close>

datatype 'c error =
    TypeError string
  | ValueError string
  | AssertionError string
  | RuntimeError string
  | ImplementationError string 'c "string list"
  | ConflictingInterfacesError 'c 'c

section \<open>Property members\<close>

text \<open>\<^verbatim>\<open>Property.is_pure_default\<close>: no slot is \<^verbatim>\<open>None\<close>.\<close>

definition is_pure_default :: "propspec \<Rightarrow> bool" where
  "is_pure_default p =
     list_all (\<lambda>x. x \<noteq> SlotNone) [getter_impl p, setter_impl p, deleter_impl p]"

text \<open>
  The default that \<^verbatim>\<open>satisfy\<close> installs in a slot the implementer left out:
  \<^verbatim>\<open>impl not in (None, NotImplemented)\<close>.
\<close>

fun slot_default :: "slot \<Rightarrow> func option" where
  "slot_default (SlotImpl f) = Some f"
| "slot_default s = None"

definition fill :: "func option \<Rightarrow> slot \<Rightarrow> func option" where
  "fill supplied s = (if supplied = None \<and> slot_default s \<noteq> None then slot_default s else supplied)"

text \<open>
  \<^verbatim>\<open>Property.satisfy(self, value)\<close>, with the name and the slots of \<^verbatim>\<open>self\<close>.
  The six checks run in the order of the source and the first that fails raises.
\<close>

fun satisfy :: "string \<Rightarrow> propspec \<Rightarrow> pyval \<Rightarrow> 'c error + pyval" where
  "satisfy nm p (PyProperty g s d) =
     (if g \<noteq> None \<and> getter_final p then
        Inl (ValueError (''propery '' @ nm @ '': getter must not be implemented''))
      else if s \<noteq> None \<and> setter_final p then
        Inl (ValueError (''propery '' @ nm @ '': setter must not be implemented''))
      else if d \<noteq> None \<and> deleter_final p then
        Inl (ValueError (''propery '' @ nm @ '': deleter must not be implemented''))
      else if getter_impl p = SlotNone \<and> g = None then
        Inl (ValueError (''property '' @ nm @ '': missing getter''))
      else if setter_impl p = SlotNone \<and> s = None then
        Inl (ValueError (''property '' @ nm @ '': missing setter''))
      else if deleter_impl p = SlotNone \<and> d = None then
        Inl (ValueError (''property '' @ nm @ '': missing deleter''))
      else Inr (PyProperty (fill g (getter_impl p)) (fill s (setter_impl p))
                  (fill d (deleter_impl p))))"
| "satisfy nm p v = Inl (AssertionError (type_name v))"

text \<open>
  \<^verbatim>\<open>Property.from_python_property(interface, name, value)\<close>; \<open>a\<close> is the
  allocation tag of the new object.
\<close>

fun from_python_property :: "nat \<Rightarrow> nat \<Rightarrow> string \<Rightarrow> pyval \<Rightarrow> 'c error + member" where
  "from_python_property a self nm (PyProperty g s d) =
     (let getter = (case g of Some f \<Rightarrow> if is_default f then SlotImpl f else SlotNone
                    | None \<Rightarrow> SlotNone);
          setter = (case s of Some f \<Rightarrow> if is_default f then SlotImpl f else SlotNone
                    | None \<Rightarrow> SlotNotImplemented);
          deleter = (case d of Some f \<Rightarrow> if is_default f then SlotImpl f else SlotNone
                     | None \<Rightarrow> SlotNotImplemented);
          getter_final = (case g of Some f \<Rightarrow> is_final f | None \<Rightarrow> False);
          setter_final = (case s of Some f \<Rightarrow> is_final f | None \<Rightarrow> False);
          deleter_final = (case d of Some f \<Rightarrow> is_final f | None \<Rightarrow> False)
      in Inr (Member a (Some self) nm
           (Property (Propspec getter setter deleter getter_final setter_final deleter_final))))"
| "from_python_property a self nm v = Inl (AssertionError (type_name v))"

section \<open>Normalising the body of an interface\<close>








section \<open>Interfaces\<close>

text \<open>
  An interface class: its allocation tag, its base classes that are interfaces
  (\<^verbatim>\<open>__bases__\<close>; every other base has no interface above it), and its attributes as
  \<^verbatim>\<open>dir\<close> and \<^verbatim>\<open>getattr\<close> resolve them, those it inherits included. Every value
  of this type is a subclass of \<^verbatim>\<open>Interface\<close>, so the \<^verbatim>\<open>is_interface\<close> tests
  of the source always pass.
\<close>

datatype iface = Iface (iid: nat) (bases: "iface list") (attributes: pydict)

fun issubclass :: "iface \<Rightarrow> iface \<Rightarrow> bool" where
  "issubclass (Iface i bs d) b = (Iface i bs d = b \<or> list_ex (\<lambda>p. issubclass p b) bs)"

definition getattr :: "iface \<Rightarrow> string \<Rightarrow> pyval option" where
  "getattr c nm = map_of (attributes c) nm"

definition dir :: "iface \<Rightarrow> string list" where
  "dir c = sort (remdups (map fst (attributes c)))"

text \<open>\<^verbatim>\<open>members_of\<close>: the generator, as the list of what it yields.\<close>

definition members_of :: "iface \<Rightarrow> member list" where
  "members_of c =
     concat (map (\<lambda>nm. case getattr c nm of
                          Some v \<Rightarrow> if is_MemberObj v then [the_member v] else []
                        | None \<Rightarrow> [])
                 (dir c))"

definition has_member :: "iface \<Rightarrow> string \<Rightarrow> bool" where
  "has_member c nm =
     (if (prefix ''_'' nm \<and> \<not> suffix ''_'' nm) \<or> nm \<in> set [''__new__'', ''__init__'']
      then False
      else case getattr c nm of
             None \<Rightarrow> False
           | Some v \<Rightarrow> is_MemberObj v \<and>
               (case kind (the_member v) of Method i f \<Rightarrow> True | Attribute t \<Rightarrow> True
                | Property p \<Rightarrow> False))"

text \<open>
  \<^verbatim>\<open>get_conflicting_members\<close>. The source returns an empty set on the first path and a
  list on the second; the model has a list on both.
\<close>

definition get_conflicting_members :: "iface \<Rightarrow> iface \<Rightarrow> string list" where
  "get_conflicting_members a b =
     (if issubclass a b \<or> issubclass b a then []
      else concat (map (\<lambda>am. case getattr b (name am) of
                                None \<Rightarrow> []
                              | Some bm \<Rightarrow> if MemberObj am \<noteq> bm then [name am] else [])
                       (members_of a)))"

text \<open>
  \<^verbatim>\<open>implements(*interfaces)\<close>: \<open>acc\<close> is the list under \<^verbatim>\<open>__implements__\<close> in the
  class body that is being executed, and the result is that list afterwards.
\<close>

fun implements :: "iface list \<Rightarrow> iface list \<Rightarrow> iface error + iface list" where
  "implements acc [] = Inr acc"
| "implements acc (x # xs) =
     (case find (\<lambda>y. get_conflicting_members x y \<noteq> []) acc of
        Some y \<Rightarrow> Inl (ConflictingInterfacesError x y)
      | None \<Rightarrow> implements (if x \<notin> set acc then acc @ [x] else acc) xs)"

text \<open>
  The calls of \<^verbatim>\<open>implements\<close> in one class body, in order; the first call creates the
  empty list.
\<close>

fun class_body :: "iface list \<Rightarrow> iface list list \<Rightarrow> iface error + iface list" where
  "class_body acc [] = Inr acc"
| "class_body acc (c # cs) =
     (case implements acc c of Inl x \<Rightarrow> Inl x | Inr acc' \<Rightarrow> class_body acc' cs)"

text \<open>
  \<^verbatim>\<open>reduce_interfaces\<close>. \<open>scan\<close> is the inner loop over the indices of
  \<^verbatim>\<open>result\<close>: it returns the list, changed at the first index that matches, and the
  flag \<^verbatim>\<open>skip\<close>.
\<close>

fun scan :: "iface \<Rightarrow> iface list \<Rightarrow> iface list \<times> bool" where
  "scan x [] = ([], False)"
| "scan x (r # rs) =
     (if issubclass x r then (x # rs, True)
      else if issubclass r x then (r # rs, True)
      else (case scan x rs of (rs', skip) \<Rightarrow> (r # rs', skip)))"

definition reduce_step :: "iface \<Rightarrow> iface list \<Rightarrow> iface list" where
  "reduce_step x result = (case scan x result of (result', skip) \<Rightarrow>
     if \<not> skip then result' @ [x] else result')"

definition reduce_interfaces :: "iface list \<Rightarrow> iface list" where
  "reduce_interfaces interfaces = fold reduce_step interfaces []"

section \<open>Declaring an implementation\<close>

text \<open>
  The class that \<^verbatim>\<open>Implementation.__metanew__\<close> creates: its name and its
  dictionary. Each interface owns a set of such classes, \<^verbatim>\<open>implementations\<close>; the
  registry is the state of all these sets.
\<close>

datatype pytype = PyType (ty_name: string) (ty_dict: pydict)

type_synonym registry = "iface \<Rightarrow> pytype set"

definition contains :: "pydict \<Rightarrow> string \<Rightarrow> bool" where
  "contains d k = (map_of d k \<noteq> None)"

definition getitem :: "pydict \<Rightarrow> string \<Rightarrow> pyval" where
  "getitem d k = the (map_of d k)"

text \<open>\<^verbatim>\<open>d.setdefault(k, v)\<close>, for the dictionary it leaves.\<close>

definition setdefault :: "string \<Rightarrow> pyval \<Rightarrow> pydict \<Rightarrow> pydict" where
  "setdefault k v d = (if contains d k then d else d @ [(k, v)])"

text \<open>Assigning the default implementations.\<close>

definition merge_default :: "member \<Rightarrow> pydict \<Rightarrow> pydict" where
  "merge_default m attrs =
     (if is_Method (kind m) \<and> \<not> contains attrs (name m) \<and> impl (kind m) \<noteq> None
      then setitem (name m) (Function (the (impl (kind m)))) attrs
      else attrs)"

definition merge_defaults :: "iface list \<Rightarrow> pydict \<Rightarrow> pydict" where
  "merge_defaults impls attrs = fold (\<lambda>i. fold merge_default (members_of i)) impls attrs"

text \<open>
  \<^verbatim>\<open>member.impl != attrs[member.name]\<close>: functions compare by identity, and an absent
  default is \<^verbatim>\<open>None\<close>.
\<close>

definition impl_differs :: "func option \<Rightarrow> pyval \<Rightarrow> bool" where
  "impl_differs i v = (case i of Some f \<Rightarrow> v \<noteq> Function f | None \<Rightarrow> v \<noteq> PyNone)"

text \<open>
  The body of the loop over the members of one interface. The state is the list
  \<^verbatim>\<open>errors\<close> and the dictionary of the new class, on which a satisfied property is
  set. \<^verbatim>\<open>satisfy\<close> may raise; only a \<^verbatim>\<open>ValueError\<close> is caught.
\<close>

definition check_member ::
  "pydict \<Rightarrow> member \<Rightarrow> string list \<times> pydict \<Rightarrow> iface error + (string list \<times> pydict)" where
  "check_member attrs m st =
     (case st of (errors, sd) \<Rightarrow>
      (case kind m of
         Method i f \<Rightarrow>
           if f \<and> contains attrs (name m) \<and> impl_differs i (getitem attrs (name m)) then
             Inr (errors @ [''implemented final method: '' @ name m @ ''()''], sd)
           else if \<not> contains attrs (name m) then
             Inr (errors @ [''missing method: '' @ name m @ ''()''], sd)
           else if \<not> is_Function (getitem attrs (name m)) then
             Inr (errors @ [''expected method, got '' @ type_name (getitem attrs (name m))
                            @ '': '' @ name m @ ''()''], sd)
           else Inr (errors, sd)
       | Attribute t \<Rightarrow> Inr (errors, sd)
       | Property p \<Rightarrow>
           if \<not> contains attrs (name m) then
             (if \<not> is_pure_default p then
                Inr (errors @ [''missing property: '' @ name m], sd)
              else Inr (errors, sd))
           else if \<not> is_PyProperty (getitem attrs (name m)) then
             Inr (errors @ [''expected property, got '' @ type_name (getitem attrs (name m))
                            @ '': '' @ name m], sd)
           else
             (case satisfy (name m) p (getitem attrs (name m)) of
                Inl (ValueError msg) \<Rightarrow> Inr (errors @ [msg], sd)
              | Inl exc \<Rightarrow> Inl exc
              | Inr val \<Rightarrow> Inr (errors, setitem (name m) val sd))))"

fun check_members ::
  "pydict \<Rightarrow> member list \<Rightarrow> string list \<times> pydict \<Rightarrow> iface error + (string list \<times> pydict)" where
  "check_members attrs [] st = Inr st"
| "check_members attrs (m # ms) st =
     (case check_member attrs m st of
        Inl exc \<Rightarrow> Inl exc
      | Inr st' \<Rightarrow> check_members attrs ms st')"

text \<open>
  The loop over the interfaces: \<^verbatim>\<open>errors\<close> starts empty for each interface, and the
  first interface that leaves it non-empty raises.
\<close>

fun validate :: "string \<Rightarrow> pydict \<Rightarrow> iface list \<Rightarrow> pydict \<Rightarrow> iface error + pydict" where
  "validate nm attrs [] sd = Inr sd"
| "validate nm attrs (i # rest) sd =
     (case check_members attrs (members_of i) ([], sd) of
        Inl exc \<Rightarrow> Inl exc
      | Inr (errors, sd') \<Rightarrow>
          if errors \<noteq> [] then Inl (ImplementationError nm i errors)
          else validate nm attrs rest sd')"

text \<open>
  The check of the functions marked with \<^verbatim>\<open>override\<close>, over the dictionary of the
  new class (what \<^verbatim>\<open>type.__new__\<close> adds to it is no function).
\<close>

definition check_overrides :: "iface list \<Rightarrow> pydict \<Rightarrow> iface error + unit" where
  "check_overrides impls sd =
     (case find (\<lambda>e. is_Function (snd e) \<and> is_override (the_func (snd e))
                      \<and> \<not> list_ex (\<lambda>i. has_member i (fst e)) impls) sd of
        Some e \<Rightarrow> Inl (RuntimeError ([CHR 0x27] @ fst e @ [CHR 0x27]
                    @ '' does not override a method of any of the implemented interfaces.''))
      | None \<Rightarrow> Inr ())"

text \<open>
  Registration: the \<^verbatim>\<open>while bases\<close> loop adds the class to every interface of one
  level and goes on with the bases of that level. Every class of the model is a subclass
  of \<^verbatim>\<open>Interface\<close>, so the test in the loop is true. The loop ends because the
  bases of a class were created before it: \<open>weight\<close> counts a class with all the
  classes above it.
\<close>

definition add_impl :: "pytype \<Rightarrow> iface \<Rightarrow> registry \<Rightarrow> registry" where
  "add_impl self x reg = reg(x := insert self (reg x))"

fun weight :: "iface \<Rightarrow> nat" where
  "weight (Iface i bs d) = Suc (sum_list (map weight bs))"

function walk_bases :: "pytype \<Rightarrow> iface list \<Rightarrow> registry \<Rightarrow> registry" where
  "walk_bases self bs reg =
     (if bs = [] then reg
      else walk_bases self (concat (map bases bs)) (fold (add_impl self) bs reg))"
  by pat_completeness auto
termination
proof (relation "measure (\<lambda>(self, bs, reg). sum_list (map weight bs))")
  show "wf (measure (\<lambda>(self, bs, reg). sum_list (map weight bs)))" by simp
next
  fix self :: pytype and bs :: "iface list" and reg :: registry
  assume ne: "bs \<noteq> []"
  have one: "sum_list (map weight (bases x)) < weight x" for x
    by (cases x) simp
  have le: "sum_list (map weight (concat (map bases ys))) \<le> sum_list (map weight ys)" for ys
  proof (induction ys)
    case Nil
    show ?case by simp
  next
    case (Cons y ys)
    from one [of y] Cons.IH show ?case by simp
  qed
  from ne obtain y ys where bs: "bs = y # ys" by (cases bs) auto
  from one [of y] le [of ys]
  have "sum_list (map weight (concat (map bases bs))) < sum_list (map weight bs)"
    unfolding bs by simp
  then show "((self, concat (map bases bs), fold (add_impl self) bs reg), (self, bs, reg))
      \<in> measure (\<lambda>(self, bs, reg). sum_list (map weight bs))"
    by simp
qed

declare walk_bases.simps [simp del]

definition register :: "pytype \<Rightarrow> iface list \<Rightarrow> registry \<Rightarrow> registry" where
  "register self impls reg = fold (\<lambda>i. walk_bases self [i]) impls reg"

text \<open>
  \<^verbatim>\<open>Implementation.__metanew__\<close>. \<open>attrs\<close> is the class body; the list that
  its entry \<^verbatim>\<open>__implements__\<close> holds is the argument \<open>declared\<close>, the empty list
  when the body has no such entry. The result is the registry afterwards and either the
  exception raised or the new class.
\<close>

definition Implementation_metanew ::
  "registry \<Rightarrow> string \<Rightarrow> iface list \<Rightarrow> pydict \<Rightarrow> registry \<times> (iface error + pytype)" where
  "Implementation_metanew reg nm declared attrs =
     (let attrs0 = setdefault ''__implements__'' (Other ''list'') attrs;
          impls = reduce_interfaces declared;
          attrs1 = merge_defaults impls attrs0
      in case validate nm attrs1 impls attrs1 of
           Inl exc \<Rightarrow> (reg, Inl exc)
         | Inr sd \<Rightarrow>
             (case check_overrides impls sd of
                Inl exc \<Rightarrow> (reg, Inl exc)
              | Inr u \<Rightarrow> (register (PyType nm sd) impls reg, Inr (PyType nm sd))))"

text \<open>
  One declaration of a concrete type: the class body runs its calls of
  \<^verbatim>\<open>implements\<close>, then the class is created. An exception in the body ends the
  declaration before the class exists.
\<close>

definition declare_type ::
  "registry \<Rightarrow> string \<Rightarrow> iface list list \<Rightarrow> pydict \<Rightarrow> registry \<times> (iface error + pytype)" where
  "declare_type reg nm calls attrs =
     (case class_body [] calls of
        Inl exc \<Rightarrow> (reg, Inl exc)
      | Inr declared \<Rightarrow> Implementation_metanew reg nm declared attrs)"

text \<open>
  The errors that one member adds to the list, and the errors of one interface: those of
  its members, in the order of \<^verbatim>\<open>members_of\<close>.
\<close>

definition violations :: "pydict \<Rightarrow> member \<Rightarrow> string list" where
  "violations attrs m =
     (case check_member attrs m ([], []) of Inr (errors, sd) \<Rightarrow> errors | Inl exc \<Rightarrow> [])"

definition iface_errors :: "pydict \<Rightarrow> iface \<Rightarrow> string list" where
  "iface_errors attrs i = concat (map (violations attrs) (members_of i))"


text \<open>
  The class body as the validation reads it: after \<^verbatim>\<open>setdefault\<close> and after the
  defaults of the interfaces that remain after the reduction have been assigned.
\<close>

definition merged_attrs :: "iface list \<Rightarrow> pydict \<Rightarrow> pydict" where
  "merged_attrs declared attrs =
     merge_defaults (reduce_interfaces declared) (setdefault ''__implements__'' (Other ''list'') attrs)"

text \<open>
  Interfaces to run the declarations on. Each lists the attributes that matter: its
  members and its set of implementations. \<open>PoliteGreeter\<close> extends \<open>Greeter\<close> and
  inherits both members; \<open>Sprinter\<close> extends \<open>Runner\<close> and \<open>Plain\<close> and overrides
  \<open>run\<close> with a default; the method of \<open>Stamped\<close> is final, and \<open>Restamped\<close>
  extends \<open>Plain\<close> and \<open>Stamped\<close> and overrides it with another default.
\<close>

definition Reader :: iface where
  "Reader = Iface 1 [] [(''implementations'', Other ''set''),
     (''read'', MemberObj (Member 11 (Some 1) ''read'' (Method None False)))]"

definition Writer :: iface where
  "Writer = Iface 2 [] [(''implementations'', Other ''set''),
     (''write'', MemberObj (Member 21 (Some 2) ''write'' (Method None False)))]"

definition Flyer :: iface where
  "Flyer = Iface 3 [] [(''implementations'', Other ''set''),
     (''move'', MemberObj (Member 31 (Some 3) ''move'' (Method None False)))]"

definition Swimmer :: iface where
  "Swimmer = Iface 4 [] [(''implementations'', Other ''set''),
     (''move'', MemberObj (Member 41 (Some 4) ''move'' (Method None False)))]"

definition Greeter :: iface where
  "Greeter = Iface 5 []
     [(''farewell'', MemberObj (Member 51 (Some 5) ''farewell''
         (Method (Some (Func 52 True False False)) False))),
      (''greet'', MemberObj (Member 53 (Some 5) ''greet'' (Method None False))),
      (''implementations'', Other ''set'')]"

definition PoliteGreeter :: iface where
  "PoliteGreeter = Iface 6 [Greeter]
     [(''farewell'', MemberObj (Member 51 (Some 5) ''farewell''
         (Method (Some (Func 52 True False False)) False))),
      (''greet'', MemberObj (Member 53 (Some 5) ''greet'' (Method None False))),
      (''implementations'', Other ''set'')]"


definition Runner :: iface where
  "Runner = Iface 8 [] [(''implementations'', Other ''set''),
     (''run'', MemberObj (Member 81 (Some 8) ''run'' (Method None False)))]"

definition Plain :: iface where
  "Plain = Iface 9 [] [(''implementations'', Other ''set'')]"

definition Sprinter :: iface where
  "Sprinter = Iface 10 [Runner, Plain] [(''implementations'', Other ''set''),
     (''run'', MemberObj (Member 101 (Some 10) ''run''
         (Method (Some (Func 102 True False False)) False)))]"


section \<open>Properties of property members\<close>

text \<open>
  C8, as the claim has it, fails: a property that \<^verbatim>\<open>from_python_property\<close> builds
  from a default getter alone has \<^verbatim>\<open>NotImplemented\<close> in the setter and the deleter
  slot, which is not \<^verbatim>\<open>None\<close>, and \<^verbatim>\<open>is_pure_default\<close> is true of it.
\<close>

theorem is_pure_default_getter_only:
  "is_pure_default (Propspec (SlotImpl (Func 1 True False False)) SlotNotImplemented
     SlotNotImplemented False False False)
   \<and> from_python_property 7 1 ''title'' (PyProperty (Some (Func 1 True False False)) None None)
       = (Inr (Member 7 (Some 1) ''title'' (Property (Propspec (SlotImpl (Func 1 True False False))
           SlotNotImplemented SlotNotImplemented False False False))) :: unit error + member)"
  by (simp add: is_pure_default_def)

text \<open>
  C8, amended: \<^verbatim>\<open>is_pure_default\<close> is true exactly when no slot is \<^verbatim>\<open>None\<close>, that
  is when no slot has to be supplied by the implementer; a slot left unspecified counts
  like one with a default. A property with a default getter and unspecified setter and
  deleter is therefore pure default.
\<close>

theorem is_pure_default_iff:
  "(is_pure_default p \<longleftrightarrow>
      getter_impl p \<noteq> SlotNone \<and> setter_impl p \<noteq> SlotNone \<and> deleter_impl p \<noteq> SlotNone)
   \<and> is_pure_default (Propspec (SlotImpl f) SlotNotImplemented SlotNotImplemented gf sf df)"
  by (simp add: is_pure_default_def)

text \<open>
  C7: \<^verbatim>\<open>satisfy\<close> raises its \<^verbatim>\<open>ValueError\<close> exactly when a final slot is
  supplied, or a slot is neither supplied nor has a default nor is unspecified; otherwise
  it returns the property whose slots are the supplied accessor, or else the default of
  the slot. For a default getter with unspecified, non-final setter and deleter, a
  candidate with a setter only resolves to the default getter and that setter.
\<close>

theorem satisfy_resolves:
  "((\<exists>msg. satisfy nm p (PyProperty g s d) = (Inl (ValueError msg) :: 'c error + pyval)) \<longleftrightarrow>
      (g \<noteq> None \<and> getter_final p) \<or> (s \<noteq> None \<and> setter_final p) \<or> (d \<noteq> None \<and> deleter_final p)
      \<or> (g = None \<and> slot_default (getter_impl p) = None \<and> getter_impl p \<noteq> SlotNotImplemented)
      \<or> (s = None \<and> slot_default (setter_impl p) = None \<and> setter_impl p \<noteq> SlotNotImplemented)
      \<or> (d = None \<and> slot_default (deleter_impl p) = None \<and> deleter_impl p \<noteq> SlotNotImplemented))
   \<and> ((\<forall>msg. satisfy nm p (PyProperty g s d) \<noteq> (Inl (ValueError msg) :: 'c error + pyval)) \<longrightarrow>
        satisfy nm p (PyProperty g s d) =
          (Inr (PyProperty
             (case g of Some f \<Rightarrow> Some f | None \<Rightarrow> slot_default (getter_impl p))
             (case s of Some f \<Rightarrow> Some f | None \<Rightarrow> slot_default (setter_impl p))
             (case d of Some f \<Rightarrow> Some f | None \<Rightarrow> slot_default (deleter_impl p))) :: 'c error + pyval))
   \<and> (\<not> sf \<longrightarrow>
        satisfy nm (Propspec (SlotImpl gd) SlotNotImplemented SlotNotImplemented gf sf df)
          (PyProperty None (Some sc) None)
        = (Inr (PyProperty (Some gd) (Some sc) None) :: 'c error + pyval))"
proof -
  have slot: "(slot_default x = None \<and> x \<noteq> SlotNotImplemented) = (x = SlotNone)" for x
    by (cases x) auto
  have fill: "fill x y = (case x of Some f \<Rightarrow> Some f | None \<Rightarrow> slot_default y)" for x y
    by (cases x; cases y) (auto simp add: fill_def)
  show ?thesis
    by (auto simp add: slot fill)
qed

theorem satisfy_resolves_witness:
  "\<not> False
   \<and> satisfy ''title''
       (Propspec (SlotImpl (Func 1 True False False)) SlotNotImplemented SlotNotImplemented
          False False False)
       (PyProperty None (Some (Func 2 False False False)) None)
     = (Inr (PyProperty (Some (Func 1 True False False)) (Some (Func 2 False False False)) None)
          :: unit error + pyval)
   \<and> satisfy ''title'' (Propspec SlotNone SlotNotImplemented SlotNotImplemented False False False)
       (PyProperty None (Some (Func 2 False False False)) None)
     = (Inl (ValueError ''property title: missing getter'') :: unit error + pyval)"
  using satisfy_resolves [of "''title''"
      "Propspec (SlotImpl (Func 1 True False False)) SlotNotImplemented SlotNotImplemented
         False False False"
      None "Some (Func 2 False False False)" None False "Func 1 True False False" False False
      "Func 2 False False False", where ?'c = unit]
  by simp

section \<open>Properties of the reduction\<close>

text \<open>
  C4 at an input where the code leaves two related interfaces: \<open>A\<close> and \<open>B\<close> are
  unrelated and \<open>C\<close> extends both. The inner loop stops at the first index that matches,
  so \<open>C\<close> replaces \<open>A\<close> and its parent \<open>B\<close> stays in the result.
\<close>

theorem reduce_interfaces_keeps_parent:
  "reduce_interfaces [Iface 1 [] [], Iface 2 [] [], Iface 3 [Iface 1 [] [], Iface 2 [] []] []]
     = [Iface 3 [Iface 1 [] [], Iface 2 [] []] [], Iface 2 [] []]
   \<and> issubclass (Iface 3 [Iface 1 [] [], Iface 2 [] []] []) (Iface 2 [] [])"
  by (simp add: reduce_interfaces_def reduce_step_def)

text \<open>What does hold of the reduction: the length, and the lists of two interfaces.\<close>

lemma length_scan: "length (fst (scan x rs)) = length rs"
  by (induction rs) (auto split: prod.splits)

lemma length_reduce_step: "length (reduce_step x rs) \<le> Suc (length rs)"
  using length_scan [of x rs] by (auto simp add: reduce_step_def split: prod.splits)

lemma length_fold_reduce_step: "length (fold reduce_step xs rs) \<le> length rs + length xs"
proof (induction xs arbitrary: rs)
  case Nil
  show ?case by simp
next
  case (Cons x xs)
  from Cons.IH [of "reduce_step x rs"] length_reduce_step [of x rs] show ?case by simp
qed

lemma length_reduce_interfaces: "length (reduce_interfaces xs) \<le> length xs"
  using length_fold_reduce_step [of xs "[]"] by (simp add: reduce_interfaces_def)


lemma reduce_interfaces_pair:
  "reduce_interfaces [a, b] =
     (if issubclass b a then [b] else if issubclass a b then [a] else [a, b])"
  by (simp add: reduce_interfaces_def reduce_step_def)

section \<open>Properties of the normalisation of an interface\<close>













section \<open>Properties of the conflict check\<close>

text \<open>
  C3 at an input where the code reports a conflict that the claim excludes: \<open>b\<close> has no
  member at all, only a string under the name of a method of \<open>a\<close>, so the sets of member
  names are disjoint. \<^verbatim>\<open>getattr(b, am.name)\<close> finds the string, which is not the
  member object, and the method is reported; in the other order nothing is reported, and
  \<^verbatim>\<open>implements\<close> accepts the two interfaces in one order and raises in the other.
\<close>

theorem conflict_with_plain_attribute:
  "get_conflicting_members
     (Iface 1 [] [(''implementations'', Other ''set''),
                  (''name'', MemberObj (Member 10 (Some 1) ''name'' (Method None False)))])
     (Iface 2 [] [(''implementations'', Other ''set''), (''name'', Other ''str'')])
   = [''name'']
   \<and> members_of (Iface 2 [] [(''implementations'', Other ''set''), (''name'', Other ''str'')]) = []
   \<and> get_conflicting_members
     (Iface 2 [] [(''implementations'', Other ''set''), (''name'', Other ''str'')])
     (Iface 1 [] [(''implementations'', Other ''set''),
                  (''name'', MemberObj (Member 10 (Some 1) ''name'' (Method None False)))])
   = []
   \<and> implements []
       [Iface 1 [] [(''implementations'', Other ''set''),
                  (''name'', MemberObj (Member 10 (Some 1) ''name'' (Method None False)))],
        Iface 2 [] [(''implementations'', Other ''set''), (''name'', Other ''str'')]]
     = Inr [Iface 1 [] [(''implementations'', Other ''set''),
                  (''name'', MemberObj (Member 10 (Some 1) ''name'' (Method None False)))],
            Iface 2 [] [(''implementations'', Other ''set''), (''name'', Other ''str'')]]
   \<and> implements []
       [Iface 2 [] [(''implementations'', Other ''set''), (''name'', Other ''str'')],
        Iface 1 [] [(''implementations'', Other ''set''),
                  (''name'', MemberObj (Member 10 (Some 1) ''name'' (Method None False)))]]
     = Inl (ConflictingInterfacesError
         (Iface 1 [] [(''implementations'', Other ''set''),
                  (''name'', MemberObj (Member 10 (Some 1) ''name'' (Method None False)))])
         (Iface 2 [] [(''implementations'', Other ''set''), (''name'', Other ''str'')]))"
  by code_simp

text \<open>What does hold of the conflict check: related interfaces never conflict.\<close>

lemma get_conflicting_members_related:
  "issubclass a b \<or> issubclass b a \<Longrightarrow> get_conflicting_members a b = []"
  by (simp add: get_conflicting_members_def)

section \<open>Properties of the implements-list\<close>




lemma implements_step:
  "implements acc [x] =
     (case find (\<lambda>y. get_conflicting_members x y \<noteq> []) acc of
        Some y \<Rightarrow> Inl (ConflictingInterfacesError x y)
      | None \<Rightarrow> Inr (if x \<notin> set acc then acc @ [x] else acc))"
  by (simp split: option.splits)







section \<open>Properties of the validation\<close>

text \<open>
  The loops of the validation never raise on their own account, and what they collect
  is \<open>violations\<close>, member by member.
\<close>

lemma satisfy_cases:
  "(\<exists>msg. satisfy nm p (PyProperty g s d) = (Inl (ValueError msg) :: 'c error + pyval))
   \<or> (\<exists>v. satisfy nm p (PyProperty g s d) = (Inr v :: 'c error + pyval))"
  by simp

lemma check_member_Inr:
  "\<exists>sd'. check_member attrs m (es, sd) = Inr (es @ violations attrs m, sd')"
proof (cases "kind m")
  case (Method i f)
  then show ?thesis by (simp add: check_member_def violations_def)
next
  case (Attribute t)
  then show ?thesis by (simp add: check_member_def violations_def)
next
  case (Property p)
  show ?thesis
  proof (cases "contains attrs (name m) \<and> is_PyProperty (getitem attrs (name m))")
    case False
    with Property show ?thesis by (auto simp add: check_member_def violations_def)
  next
    case True
    then obtain g s d where v: "getitem attrs (name m) = PyProperty g s d"
      by (cases "getitem attrs (name m)") auto
    from satisfy_cases [of "name m" p g s d, where ?'c = iface]
    show ?thesis
    proof
      assume "\<exists>msg. satisfy (name m) p (PyProperty g s d) = (Inl (ValueError msg) :: iface error + pyval)"
      then obtain msg where "satisfy (name m) p (PyProperty g s d) = (Inl (ValueError msg) :: iface error + pyval)" ..
      with Property True v show ?thesis by (simp add: check_member_def violations_def)
    next
      assume "\<exists>w. satisfy (name m) p (PyProperty g s d) = (Inr w :: iface error + pyval)"
      then obtain w where "satisfy (name m) p (PyProperty g s d) = (Inr w :: iface error + pyval)" ..
      with Property True v show ?thesis by (simp add: check_member_def violations_def)
    qed
  qed
qed

lemma check_members_Inr:
  "\<exists>sd'. check_members attrs ms (es, sd) = Inr (es @ concat (map (violations attrs) ms), sd')"
proof (induction ms arbitrary: es sd)
  case Nil
  show ?case by simp
next
  case (Cons m ms)
  from check_member_Inr [of attrs m es sd]
  obtain sd1 where one: "check_member attrs m (es, sd) = Inr (es @ violations attrs m, sd1)" ..
  from Cons.IH [of "es @ violations attrs m" sd1] one show ?case by simp
qed

lemma validate_first:
  "find (\<lambda>i. iface_errors attrs i \<noteq> []) impls = Some i \<Longrightarrow>
   validate nm attrs impls sd = Inl (ImplementationError nm i (iface_errors attrs i))"
proof (induction impls arbitrary: sd)
  case Nil
  then show ?case by simp
next
  case (Cons j rest)
  from check_members_Inr [of attrs "members_of j" "[]" sd]
  obtain sd1 where one: "check_members attrs (members_of j) ([], sd) = Inr (iface_errors attrs j, sd1)"
    by (auto simp add: iface_errors_def)
  show ?case
  proof (cases "iface_errors attrs j \<noteq> []")
    case True
    with Cons.prems one show ?thesis by simp
  next
    case False
    with Cons.prems have "find (\<lambda>i. iface_errors attrs i \<noteq> []) rest = Some i" by simp
    from Cons.IH [OF this, of sd1] False one show ?thesis by simp
  qed
qed

lemma validate_none:
  "find (\<lambda>i. iface_errors attrs i \<noteq> []) impls = None \<Longrightarrow>
   \<exists>sd'. validate nm attrs impls sd = Inr sd'"
proof (induction impls arbitrary: sd)
  case Nil
  then show ?case by simp
next
  case (Cons j rest)
  from check_members_Inr [of attrs "members_of j" "[]" sd]
  obtain sd1 where one: "check_members attrs (members_of j) ([], sd) = Inr (iface_errors attrs j, sd1)"
    by (auto simp add: iface_errors_def)
  from Cons.prems have e: "iface_errors attrs j = []" and r: "find (\<lambda>i. iface_errors attrs i \<noteq> []) rest = None"
    by (auto split: if_splits)
  from Cons.IH [OF r, of sd1] e one show ?case by simp
qed

lemma metanew_raises:
  assumes "find (\<lambda>i. iface_errors (merged_attrs declared attrs) i \<noteq> []) (reduce_interfaces declared)
           = Some i"
  shows "Implementation_metanew reg nm declared attrs =
     (reg, Inl (ImplementationError nm i (iface_errors (merged_attrs declared attrs) i)))"
  using validate_first [OF assms, of nm "merged_attrs declared attrs"]
  by (simp add: Implementation_metanew_def Let_def merged_attrs_def)

lemma check_overrides_cases:
  "(\<exists>msg. check_overrides impls sd = Inl (RuntimeError msg)) \<or> check_overrides impls sd = Inr ()"
  by (simp add: check_overrides_def split: option.splits)

lemma metanew_validated:
  assumes "find (\<lambda>i. iface_errors (merged_attrs declared attrs) i \<noteq> []) (reduce_interfaces declared)
           = None"
  shows "\<exists>sd. validate nm (merged_attrs declared attrs) (reduce_interfaces declared)
             (merged_attrs declared attrs) = Inr sd
     \<and> ((\<exists>msg. Implementation_metanew reg nm declared attrs = (reg, Inl (RuntimeError msg)))
        \<or> (check_overrides (reduce_interfaces declared) sd = Inr ()
           \<and> snd (Implementation_metanew reg nm declared attrs) = Inr (PyType nm sd)))"
proof -
  from validate_none [OF assms, of nm "merged_attrs declared attrs"]
  obtain sd where v: "validate nm (merged_attrs declared attrs) (reduce_interfaces declared)
             (merged_attrs declared attrs) = Inr sd" ..
  from check_overrides_cases [of "reduce_interfaces declared" sd] v show ?thesis
    by (auto simp add: Implementation_metanew_def Let_def merged_attrs_def)
qed

lemma find_first:
  "\<forall>j \<in> set pre. \<not> P j \<Longrightarrow> P i \<Longrightarrow> find P (pre @ i # post) = Some i"
  by (induction pre) auto









lemma violations_missing:
  assumes "is_Method (kind m)" and "\<not> contains A (name m)"
  shows "violations A m = [''missing method: '' @ name m @ ''()'']"
  using assms
  by (cases "kind m") (simp_all add: violations_def check_member_def)

lemma concat_single:
  assumes "\<forall>x \<in> set (xs @ ys). g x = []"
  shows "concat (map g (xs @ y # ys)) = g y"
proof -
  have a: "concat (map g xs) = []" using assms by auto
  have b: "concat (map g ys) = []" using assms by auto
  show ?thesis by (simp add: a b)
qed


lemma iface_errors_empty:
  "iface_errors A i = [] \<longleftrightarrow> (\<forall>m \<in> set (members_of i). violations A m = [])"
  by (simp add: iface_errors_def)

text \<open>
  C1, as the claim has it, fails: \<^verbatim>\<open>errors\<close> is emptied for each interface and the
  \<^verbatim>\<open>raise\<close> stands inside the loop over the interfaces. The type below implements
  neither \<open>read\<close> of \<open>Reader\<close> nor \<open>write\<close> of \<open>Writer\<close>; the error that is raised
  lists the first, and the violation of \<open>Writer\<close> is reported nowhere.
\<close>

theorem later_interface_errors_dropped:
  "snd (declare_type (\<lambda>x. {}) ''File'' [[Reader, Writer]] [])
     = Inl (ImplementationError ''File'' Reader [''missing method: read()''])
   \<and> iface_errors (merged_attrs [Reader, Writer] []) Writer = [''missing method: write()'']"
  by code_simp

text \<open>
  C1, amended: the interfaces that remain after the reduction are validated in order;
  the violations of all members of one interface are collected, and the first interface
  that has any raises one \<^verbatim>\<open>ImplementationError\<close> with that interface and exactly
  its violations. When no interface has a violation, no \<^verbatim>\<open>ImplementationError\<close> is
  raised.
\<close>

theorem first_offending_interface_raises:
  "(find (\<lambda>i. iface_errors (merged_attrs declared attrs) i \<noteq> []) (reduce_interfaces declared) = Some i
      \<longrightarrow> Implementation_metanew reg nm declared attrs =
            (reg, Inl (ImplementationError nm i
               (concat (map (violations (merged_attrs declared attrs)) (members_of i))))))
   \<and> (find (\<lambda>i. iface_errors (merged_attrs declared attrs) i \<noteq> []) (reduce_interfaces declared) = None
      \<longrightarrow> (\<forall>j errs. snd (Implementation_metanew reg nm declared attrs)
                        \<noteq> Inl (ImplementationError nm j errs)))"
proof (intro conjI impI)
  assume "find (\<lambda>i. iface_errors (merged_attrs declared attrs) i \<noteq> []) (reduce_interfaces declared) = Some i"
  from metanew_raises [OF this, of reg nm]
  show "Implementation_metanew reg nm declared attrs =
            (reg, Inl (ImplementationError nm i
               (concat (map (violations (merged_attrs declared attrs)) (members_of i)))))"
    by (simp add: iface_errors_def)
next
  assume "find (\<lambda>i. iface_errors (merged_attrs declared attrs) i \<noteq> []) (reduce_interfaces declared) = None"
  from metanew_validated [OF this, of nm reg]
  show "\<forall>j errs. snd (Implementation_metanew reg nm declared attrs)
                        \<noteq> Inl (ImplementationError nm j errs)"
    by auto
qed

theorem first_offending_interface_raises_witness:
  "find (\<lambda>i. iface_errors (merged_attrs [Reader, Writer] []) i \<noteq> [])
      (reduce_interfaces [Reader, Writer]) = Some Reader
   \<and> Implementation_metanew (\<lambda>x. {}) ''File'' [Reader, Writer] []
      = ((\<lambda>x. {}), Inl (ImplementationError ''File'' Reader [''missing method: read()'']))"
proof -
  have f: "find (\<lambda>i. iface_errors (merged_attrs [Reader, Writer] []) i \<noteq> [])
      (reduce_interfaces [Reader, Writer]) = Some Reader"
    by code_simp
  have c: "concat (map (violations (merged_attrs [Reader, Writer] [])) (members_of Reader))
      = [''missing method: read()'']"
    by code_simp
  from first_offending_interface_raises [of "[Reader, Writer]" "[]" Reader "\<lambda>x. {}" "''File''"] f
  have "Implementation_metanew (\<lambda>x. {}) ''File'' [Reader, Writer] []
      = ((\<lambda>x. {}), Inl (ImplementationError ''File'' Reader
           (concat (map (violations (merged_attrs [Reader, Writer] [])) (members_of Reader)))))"
    by blast
  with f show ?thesis unfolding c by blast
qed

text \<open>
  C6, as the claim has it, fails: the type below supplies no \<open>run\<close>, and \<open>run\<close> of
  \<open>Runner\<close> has no default, yet the declaration succeeds without any violation,
  because the default of \<open>Sprinter\<close> was assigned under that name before the
  validation. In the first declaration \<open>Runner\<close> is reduced away; in the second it
  remains and is validated.
\<close>

theorem default_of_other_interface_fills_in:
  "snd (declare_type (\<lambda>x. {}) ''Athlete'' [[Runner, Sprinter]] [])
     = Inr (PyType ''Athlete'' [(''__implements__'', Other ''list''),
                               (''run'', Function (Func 102 True False False))])
   \<and> snd (declare_type (\<lambda>x. {}) ''Athlete'' [[Plain, Runner, Sprinter]] [])
     = Inr (PyType ''Athlete'' [(''__implements__'', Other ''list''),
                               (''run'', Function (Func 102 True False False))])
   \<and> reduce_interfaces [Plain, Runner, Sprinter] = [Sprinter, Runner]
   \<and> members_of Runner = [Member 81 (Some 8) ''run'' (Method None False)]"
  by code_simp

text \<open>
  C6, amended: for an interface that remains after the reduction and a method of it
  without default, if the class body after the defaults have been assigned has no entry
  of that name, no interface before it has a violation and no other member of it has
  one, then the declaration raises \<^verbatim>\<open>ImplementationError\<close> for that interface
  with exactly the one entry \<^verbatim>\<open>missing method\<close> that names the method.
\<close>

theorem missing_method_raises:
  assumes "reduce_interfaces declared = pre @ i # post"
    and "\<forall>j \<in> set pre. \<forall>m' \<in> set (members_of j). violations (merged_attrs declared attrs) m' = []"
    and "members_of i = ms1 @ m # ms2"
    and "is_Method (kind m)" and "impl (kind m) = None"
    and "\<not> contains (merged_attrs declared attrs) (name m)"
    and "\<forall>m' \<in> set (ms1 @ ms2). violations (merged_attrs declared attrs) m' = []"
  shows "Implementation_metanew reg nm declared attrs =
     (reg, Inl (ImplementationError nm i [''missing method: '' @ name m @ ''()'']))"
proof -
  let ?A = "merged_attrs declared attrs"
  have v: "violations ?A m = [''missing method: '' @ name m @ ''()'']"
    using violations_missing [OF assms(4) assms(6)] .
  have "iface_errors ?A i = violations ?A m"
    unfolding iface_errors_def assms(3) using concat_single [OF assms(7)] .
  with v have e: "iface_errors ?A i = [''missing method: '' @ name m @ ''()'']"
    by (simp only:)
  have pre: "\<forall>j \<in> set pre. \<not> iface_errors ?A j \<noteq> []"
    using assms(2) by (simp add: iface_errors_empty)
  have "find (\<lambda>i. iface_errors ?A i \<noteq> []) (reduce_interfaces declared) = Some i"
    unfolding assms(1) using find_first [of pre "\<lambda>i. iface_errors ?A i \<noteq> []" i post] pre e by simp
  from metanew_raises [OF this, of reg nm] e show ?thesis by simp
qed

theorem missing_method_raises_witness:
  "reduce_interfaces [Runner] = [Runner]
   \<and> members_of Runner = [Member 81 (Some 8) ''run'' (Method None False)]
   \<and> \<not> contains (merged_attrs [Runner] []) ''run''
   \<and> Implementation_metanew (\<lambda>x. {}) ''Jogger'' [Runner] []
      = ((\<lambda>x. {}), Inl (ImplementationError ''Jogger'' Runner [''missing method: run()'']))"
proof -
  let ?M = "Member 81 (Some 8) ''run'' (Method None False)"
  have r: "reduce_interfaces [Runner] = [] @ Runner # []" by code_simp
  have ms: "members_of Runner = [] @ ?M # []" by code_simp
  have a: "\<not> contains (merged_attrs [Runner] []) (name ?M)" by code_simp
  have p: "\<forall>j \<in> set []. \<forall>m' \<in> set (members_of j). violations (merged_attrs [Runner] []) m' = []"
    by simp
  have q: "\<forall>m' \<in> set ([] @ []). violations (merged_attrs [Runner] []) m' = []" by simp
  have k1: "is_Method (kind ?M)" and k2: "impl (kind ?M) = None" by simp_all
  from missing_method_raises [OF r p ms k1 k2 a q, of "\<lambda>x. {}" "''Jogger''"] r ms a
  show ?thesis by simp
qed





section \<open>Properties of the registration\<close>

lemma issubclass_unfold:
  "issubclass b x \<longleftrightarrow> b = x \<or> (\<exists>p \<in> set (bases b). issubclass p x)"
  by (cases b) (simp add: list_ex_iff)

lemma fold_add_impl:
  "fold (add_impl self) bs reg x = (if x \<in> set bs then insert self (reg x) else reg x)"
  by (induction bs arbitrary: reg) (auto simp add: add_impl_def)

lemma walk_bases_at:
  "walk_bases self bs reg x =
     (if \<exists>b \<in> set bs. issubclass b x then insert self (reg x) else reg x)"
proof (induction self bs reg rule: walk_bases.induct)
  case (1 self bs reg)
  show ?case
  proof (cases "bs = []")
    case True
    then show ?thesis by (simp add: walk_bases.simps)
  next
    case False
    have up: "(\<exists>b \<in> set bs. issubclass b x) \<longleftrightarrow>
        x \<in> set bs \<or> (\<exists>p \<in> set (concat (map bases bs)). issubclass p x)"
    proof -
      have "(\<exists>b \<in> set bs. issubclass b x) \<longleftrightarrow>
          (\<exists>b \<in> set bs. b = x \<or> (\<exists>p \<in> set (bases b). issubclass p x))"
        by (subst issubclass_unfold) (rule refl)
      also have "\<dots> \<longleftrightarrow>
          x \<in> set bs \<or> (\<exists>p \<in> set (concat (map bases bs)). issubclass p x)"
        by auto
      finally show ?thesis .
    qed
    have "walk_bases self bs reg x =
        walk_bases self (concat (map bases bs)) (fold (add_impl self) bs reg) x"
      using False by (subst walk_bases.simps) simp
    also have "\<dots> = (if \<exists>p \<in> set (concat (map bases bs)). issubclass p x
        then insert self (fold (add_impl self) bs reg x) else fold (add_impl self) bs reg x)"
      using "1.IH" [OF False] .
    finally show ?thesis
      unfolding up fold_add_impl by auto
  qed
qed

lemma register_at:
  "register self impls reg x =
     (if \<exists>i \<in> set impls. issubclass i x then insert self (reg x) else reg x)"
  unfolding register_def
  by (induction impls arbitrary: reg) (auto simp add: walk_bases_at)

lemma metanew_registry:
  "fst (Implementation_metanew reg nm declared attrs) =
     (case snd (Implementation_metanew reg nm declared attrs) of
        Inl exc \<Rightarrow> reg
      | Inr self \<Rightarrow> register self (reduce_interfaces declared) reg)"
  by (simp add: Implementation_metanew_def Let_def split: sum.splits)

lemma ex_greeter:
  "snd (declare_type (\<lambda>x. {}) ''EnglishGreeter'' [[PoliteGreeter]]
         [(''greet'', Function (Func 60 False False False))])
   = Inr (PyType ''EnglishGreeter'' [(''greet'', Function (Func 60 False False False)),
            (''__implements__'', Other ''list''),
            (''farewell'', Function (Func 52 True False False))])"
  by code_simp

lemma ex_duck:
  "snd (declare_type (\<lambda>x. {}) ''Duck'' [[Flyer, Swimmer]]
         [(''move'', Function (Func 60 False False False))])
   = Inl (ConflictingInterfacesError Swimmer Flyer)"
  by code_simp

text \<open>
  C2: a declaration that raises, in the class body or in
  \<^verbatim>\<open>Implementation.__metanew__\<close>, leaves every set of implementations as it was; one
  that succeeds adds the new type to the set of exactly the interfaces that remain after
  the reduction and of their ancestors.
\<close>

theorem registration_all_or_nothing:
  "(case snd (declare_type reg nm calls attrs) of
      Inl exc \<Rightarrow> fst (declare_type reg nm calls attrs) = reg
    | Inr self \<Rightarrow>
        (\<exists>declared. class_body [] calls = Inr declared \<and>
           (\<forall>x. fst (declare_type reg nm calls attrs) x =
              (if \<exists>i \<in> set (reduce_interfaces declared). issubclass i x
               then insert self (reg x) else reg x))))"
proof (cases "class_body [] calls")
  case (Inl exc)
  then show ?thesis by (simp add: declare_type_def)
next
  case (Inr declared)
  then have d: "declare_type reg nm calls attrs = Implementation_metanew reg nm declared attrs"
    by (simp add: declare_type_def)
  show ?thesis
    unfolding d using metanew_registry [of reg nm declared attrs] Inr
    by (auto simp add: register_at split: sum.splits)
qed

theorem registration_all_or_nothing_witness:
  "snd (declare_type (\<lambda>x. {}) ''Duck'' [[Flyer, Swimmer]]
         [(''move'', Function (Func 60 False False False))])
     = Inl (ConflictingInterfacesError Swimmer Flyer)
   \<and> fst (declare_type (\<lambda>x. {}) ''Duck'' [[Flyer, Swimmer]]
         [(''move'', Function (Func 60 False False False))]) = (\<lambda>x. {})
   \<and> snd (declare_type (\<lambda>x. {}) ''EnglishGreeter'' [[PoliteGreeter]]
         [(''greet'', Function (Func 60 False False False))])
     = Inr (PyType ''EnglishGreeter'' [(''greet'', Function (Func 60 False False False)),
            (''__implements__'', Other ''list''),
            (''farewell'', Function (Func 52 True False False))])
   \<and> fst (declare_type (\<lambda>x. {}) ''EnglishGreeter'' [[PoliteGreeter]]
         [(''greet'', Function (Func 60 False False False))]) Greeter
     = {PyType ''EnglishGreeter'' [(''greet'', Function (Func 60 False False False)),
            (''__implements__'', Other ''list''),
            (''farewell'', Function (Func 52 True False False))]}
   \<and> fst (declare_type (\<lambda>x. {}) ''EnglishGreeter'' [[PoliteGreeter]]
         [(''greet'', Function (Func 60 False False False))]) Flyer = {}"
proof -
  let ?T = "PyType ''EnglishGreeter'' [(''greet'', Function (Func 60 False False False)),
            (''__implements__'', Other ''list''),
            (''farewell'', Function (Func 52 True False False))]"
  let ?D = "declare_type (\<lambda>x. {}) ''EnglishGreeter'' [[PoliteGreeter]]
         [(''greet'', Function (Func 60 False False False))]"
  have cb: "class_body [] [[PoliteGreeter]] = Inr [PoliteGreeter]" by code_simp
  have rd: "reduce_interfaces [PoliteGreeter] = [PoliteGreeter]" by code_simp
  have s1: "issubclass PoliteGreeter Greeter" by code_simp
  have s2: "\<not> issubclass PoliteGreeter Flyer" by code_simp
  from registration_all_or_nothing [of "\<lambda>x. {}" "''Duck''" "[[Flyer, Swimmer]]"
      "[(''move'', Function (Func 60 False False False))]"] ex_duck
  have duck: "fst (declare_type (\<lambda>x. {}) ''Duck'' [[Flyer, Swimmer]]
         [(''move'', Function (Func 60 False False False))]) = (\<lambda>x. {})"
    by simp
  from registration_all_or_nothing [of "\<lambda>x. {}" "''EnglishGreeter''" "[[PoliteGreeter]]"
      "[(''greet'', Function (Func 60 False False False))]"]
  have "\<exists>declared. class_body [] [[PoliteGreeter]] = Inr declared \<and>
           (\<forall>x. fst ?D x =
              (if \<exists>i \<in> set (reduce_interfaces declared). issubclass i x
               then insert ?T {} else {}))"
    unfolding ex_greeter by simp
  then have at: "fst ?D x = (if issubclass PoliteGreeter x then {?T} else {})" for x
    unfolding cb by (simp add: rd)
  from at [of Greeter] at [of Flyer] s1 s2 duck ex_duck ex_greeter show ?thesis
    by (simp only: if_True if_False simp_thms)
qed

end
